theory Spec2Isabelle
  imports Complex_Main
begin

section \<open>Python values and errors\<close>

text \<open>
  Every exception that the modelled code can raise is a value of \<open>error\<close>, and a
  function that can raise returns \<open>error + 'a\<close> with \<open>Inl\<close> for the exception.
  \<open>LibraryError\<close> stands for whatever a third-party call (a raster read, a catalog
  request) raises on its own.
\<close>

datatype error =
    ValueError string
  | IndexError
  | ZeroDivisionError
  | KeyError string
  | AssertionError
  | LibraryError string

text \<open>
  Python \<open>float\<close>s are read as real numbers: the arithmetic of the handler and of the
  overlap test is exact in the model. The values a returned \<open>dict\<close> can hold:
  a float, a string, the string produced by \<^verbatim>\<open>"%fG" % x\<close> (kept as the number \<open>x\<close> it
  prints in gibibytes), and a mapping of strings.
\<close>

datatype pyval =
    PyFloat real
  | PyStr string
  | PyStr_fG real
  | PyDict "(string \<times> string) list"

section \<open>deploy/config.yaml: the cluster option handler\<close>

text \<open>
  \<^verbatim>\<open>
  def option_handler(options):
      if ":" not in options.image:
          raise ValueError("When specifying an image you must also provide a tag")
      return {
          "worker_cores": 0.88 * min(options.worker_cores / 2, 1),
          "worker_cores_limit": options.worker_cores,
          "worker_memory": "%fG" % (0.95 * options.worker_memory),
          "worker_memory_limit": "%fG" % options.worker_memory,
          "image": options.image,
          "environment": options.environment,
      }
  \<close>
  The \<open>options\<close> object carries the four declared fields
  (\<open>Float worker_cores\<close>, \<open>Float worker_memory\<close>, \<open>String image\<close>,
  \<open>Mapping environment\<close>). The returned dict is an association list in the order
  of the literal.
\<close>

record options =
  worker_cores :: real
  worker_memory :: real
  image :: string
  environment :: "(string \<times> string) list"

definition option_handler :: "options \<Rightarrow> error + (string \<times> pyval) list" where
  "option_handler opts =
     (if CHR '':'' \<notin> set (image opts)
      then Inl (ValueError ''When specifying an image you must also provide a tag'')
      else Inr
        [(''worker_cores'', PyFloat (0.88 * min (worker_cores opts / 2) 1)),
         (''worker_cores_limit'', PyFloat (worker_cores opts)),
         (''worker_memory'', PyStr_fG (0.95 * worker_memory opts)),
         (''worker_memory_limit'', PyStr_fG (worker_memory opts)),
         (''image'', PyStr (image opts)),
         (''environment'', PyDict (environment opts))])"

text \<open>The declared defaults of the four options.\<close>

definition default_options :: options where
  "default_options =
     \<lparr>worker_cores = 1, worker_memory = 2,
      image = ''pangeo/pangeo-notebook:latest'', environment = []\<rparr>"

section \<open>The training notebook: choosing a Sentinel-2 scene\<close>

text \<open>
  A \<open>pystac.Item\<close> with the attributes the notebook reads: its GeoJSON
  \<open>geometry\<close>, the \<open>eo:cloud_cover\<close> read through the EO extension (a number, as
  every Sentinel-2 item of the catalog carries one), and its assets as a mapping
  from asset key to \<open>href\<close>.
\<close>

record 'g stac_item =
  item_id :: string
  geometry :: 'g
  cloud_cover :: real
  assets :: "(string \<times> string) list"

text \<open>
  The two operations of the geometry library that \<open>find_match\<close> calls are
  parameters: the \<open>area\<close> of a shape and the \<open>intersection\<close> of two shapes.
  \<open>shapely.geometry.shape\<close> turns the GeoJSON geometry into the library's shape; the
  model keeps one type \<open>'g\<close> for both, and takes the geometries to be valid, so that
  the two operations return.
\<close>

record 'g shapely =
  area :: "'g \<Rightarrow> real"
  intersection :: "'g \<Rightarrow> 'g \<Rightarrow> 'g"

text \<open>
  \<^verbatim>\<open>
  def find_match(label_item, sentinel_items):
      # make sure we pick a sentinel scene that overlaps substantially with the label
      label_shape = shapely.geometry.shape(label_item.geometry)
      items2 = [
          item
          for item in sentinel_items
          if (
              shapely.geometry.shape(item.geometry).intersection(label_shape).area
              / label_shape.area
          )
          > 0.9
      ]
      sentinel_item = sorted(
          items2, key=lambda item: pystac.extensions.eo.EOExtension.ext(item).cloud_cover
      )[0]
      return sentinel_item
  \<close>
  The division of two Python floats raises \<open>ZeroDivisionError\<close> when the divisor is
  zero; the comprehension evaluates it once per item, in order, so the exception
  leaves at the first item. \<open>sorted\<close> is a stable sort by the key, as
  \<^const>\<open>sort_key\<close> is; \<open>[0]\<close> on an empty list raises \<open>IndexError\<close>.
\<close>

definition overlap_ratio :: "'g shapely \<Rightarrow> 'g \<Rightarrow> 'g stac_item \<Rightarrow> error + real" where
  "overlap_ratio sh label_shape item =
     (if area sh label_shape = 0 then Inl ZeroDivisionError
      else Inr (area sh (intersection sh (geometry item) label_shape) / area sh label_shape))"

fun items2 :: "'g shapely \<Rightarrow> 'g \<Rightarrow> 'g stac_item list \<Rightarrow> error + 'g stac_item list" where
  "items2 sh label_shape [] = Inr []"
| "items2 sh label_shape (item # rest) =
     (case overlap_ratio sh label_shape item of
        Inl e \<Rightarrow> Inl e
      | Inr r \<Rightarrow>
          (case items2 sh label_shape rest of
             Inl e \<Rightarrow> Inl e
           | Inr keep \<Rightarrow> Inr (if r > 0.9 then item # keep else keep)))"

definition find_match ::
  "'g shapely \<Rightarrow> 'g stac_item \<Rightarrow> 'g stac_item list \<Rightarrow> error + 'g stac_item" where
  "find_match sh label_item sentinel_items =
     (let label_shape = geometry label_item in
      case items2 sh label_shape sentinel_items of
        Inl e \<Rightarrow> Inl e
      | Inr kept \<Rightarrow>
          (case sort_key cloud_cover kept of
             [] \<Rightarrow> Inl IndexError
           | sentinel_item # _ \<Rightarrow> Inr sentinel_item))"


subsection \<open>The geometry library on axis-aligned boxes\<close>

text \<open>
  An instance of the two geometry operations, used to run the functions on concrete
  inputs: a shape is a box \<open>(minx, miny, maxx, maxy)\<close>, the intersection of two boxes
  is a box, and a box with no extent has area zero.
\<close>

type_synonym box = "real \<times> real \<times> real \<times> real"

definition box_area :: "box \<Rightarrow> real" where
  "box_area b = (case b of (x0, y0, x1, y1) \<Rightarrow> max 0 (x1 - x0) * max 0 (y1 - y0))"

definition box_intersection :: "box \<Rightarrow> box \<Rightarrow> box" where
  "box_intersection a b =
     (case a of (ax0, ay0, ax1, ay1) \<Rightarrow>
      case b of (bx0, by0, bx1, by1) \<Rightarrow>
        (max ax0 bx0, max ay0 by0, min ax1 bx1, min ay1 by1))"

definition box_shapely :: "box shapely" where
  "box_shapely = \<lparr>area = box_area, intersection = box_intersection\<rparr>"

text \<open>
  A label chip of 10 by 10 units and three scenes: \<open>S2A\<close> covers the chip with 30
  percent cloud, \<open>S2B\<close> covers it with 5 percent cloud, \<open>S2C\<close> has 1 percent cloud
  but covers only half of the chip. \<open>point_label\<close> is a label whose geometry is a
  single point.
\<close>

definition chip_label :: "box stac_item" where
  "chip_label =
     \<lparr>item_id = ''chip'', geometry = (0, 0, 10, 10), cloud_cover = 0,
      assets = [(''labels'', ''train/chip/labels.tif'')]\<rparr>"

definition point_label :: "box stac_item" where
  "point_label =
     \<lparr>item_id = ''point'', geometry = (3, 3, 3, 3), cloud_cover = 0,
      assets = [(''labels'', ''train/point/labels.tif'')]\<rparr>"

definition scene_a :: "box stac_item" where
  "scene_a = \<lparr>item_id = ''S2A'', geometry = (0, 0, 100, 100), cloud_cover = 30, assets = []\<rparr>"

definition scene_b :: "box stac_item" where
  "scene_b = \<lparr>item_id = ''S2B'', geometry = (-50, -50, 60, 60), cloud_cover = 5, assets = []\<rparr>"

definition scene_c :: "box stac_item" where
  "scene_c = \<lparr>item_id = ''S2C'', geometry = (5, 0, 100, 100), cloud_cover = 1, assets = []\<rparr>"

section \<open>The training notebook: loading one training pair\<close>

text \<open>
  An element of a \<open>float32\<close> array is a finite number, an infinity or NaN; the
  raster stack marks a pixel without data as NaN. Finite arithmetic is exact in the
  model.
\<close>

datatype f32 = Fin real | PInf | NInf | NaN

datatype dtype = UInt8 | Int16 | Int32 | Int64 | Float32 | Float64

text \<open>
  An \<open>xarray.DataArray\<close> with what the notebook reads of it: the \<open>shape\<close>, the
  \<open>dtype\<close>, the elements in row-major order, the \<open>x\<close> and \<open>y\<close> coordinates, and
  the two georeferencing attributes \<open>rio.bounds()\<close> and \<open>rio.crs.to_epsg()\<close>.
\<close>

record 'a data_array =
  shape :: "nat list"
  dtype :: dtype
  vals :: "'a list"
  x_coord :: "real list"
  y_coord :: "real list"
  rio_bounds :: "real \<times> real \<times> real \<times> real"
  rio_epsg :: nat

text \<open>
  The services and libraries \<open>get_item\<close> reads through, as parameters. Each may
  raise on its own (\<open>Inl\<close> with the library's message):
  \<^item> \<open>open_rasterio href\<close> is \<^verbatim>\<open>rioxarray.open_rasterio(href)\<close>;
  \<^item> \<open>sign item\<close> is \<^verbatim>\<open>planetary_computer.sign(item)\<close>;
  \<^item> \<open>stack item assets bounds epsg\<close> is what
    \<^verbatim>\<open>stackstac.stack(item.to_dict(), assets=assets, dtype="float32", resolution=10,
      bounds=bounds, epsg=epsg)\<close> holds once computed.
\<close>

record 'g world =
  open_rasterio :: "string \<Rightarrow> string + int data_array"
  sign :: "'g stac_item \<Rightarrow> string + 'g stac_item"
  stack :: "'g stac_item \<Rightarrow> string list \<Rightarrow> real \<times> real \<times> real \<times> real \<Rightarrow> nat
            \<Rightarrow> string + f32 data_array"

text \<open>\<open>squeeze()\<close> drops every dimension of length one.\<close>

definition squeeze :: "'a data_array \<Rightarrow> 'a data_array" where
  "squeeze a = a\<lparr>shape := filter (\<lambda>n. n \<noteq> 1) (shape a)\<rparr>"

text \<open>\<open>round(x, 0)\<close> on a float rounds to the nearest whole number, ties to even.\<close>

definition py_round0 :: "real \<Rightarrow> real" where
  "py_round0 x =
     (let f = \<lfloor>x\<rfloor>; d = x - of_int f in
      if d < 1 / 2 then of_int f
      else if d > 1 / 2 then of_int (f + 1)
      else if even f then of_int f else of_int (f + 1))"

definition round_bounds :: "real \<times> real \<times> real \<times> real \<Rightarrow> real \<times> real \<times> real \<times> real" where
  "round_bounds b =
     (case b of (x0, y0, x1, y1) \<Rightarrow> (py_round0 x0, py_round0 y0, py_round0 x1, py_round0 y1))"

text \<open>\<open>data.assign_coords(x=..., y=...)\<close> replaces the two coordinates.\<close>

definition assign_coords :: "real list \<Rightarrow> real list \<Rightarrow> 'a data_array \<Rightarrow> 'a data_array" where
  "assign_coords xs ys a = a\<lparr>x_coord := xs, y_coord := ys\<rparr>"

text \<open>
  \<open>data /= k\<close>, element by element, as IEEE division does it: NaN stays NaN, an
  infinity stays infinite with the sign the divisor gives it, and a finite number
  divided by zero is an infinity, or NaN for zero by zero.
\<close>

fun f32_div :: "f32 \<Rightarrow> real \<Rightarrow> f32" where
  "f32_div (Fin r) k =
     (if k = 0 then (if r > 0 then PInf else if r < 0 then NInf else NaN)
      else Fin (r / k))"
| "f32_div PInf k = (if k < 0 then NInf else PInf)"
| "f32_div NInf k = (if k < 0 then PInf else NInf)"
| "f32_div NaN k = NaN"

definition divide_by :: "real \<Rightarrow> f32 data_array \<Rightarrow> f32 data_array" where
  "divide_by k a = a\<lparr>vals := map (\<lambda>v. f32_div v k) (vals a)\<rparr>"

text \<open>
  \<open>np.clip(data, 0, 1)\<close>, element by element: a number below the lower bound becomes
  the lower bound, one above the upper bound becomes the upper bound, and NaN stays
  NaN.
\<close>

fun f32_clip :: "real \<Rightarrow> real \<Rightarrow> f32 \<Rightarrow> f32" where
  "f32_clip lo hi (Fin r) = Fin (min (max r lo) hi)"
| "f32_clip lo hi PInf = Fin hi"
| "f32_clip lo hi NInf = Fin lo"
| "f32_clip lo hi NaN = NaN"

definition clip :: "real \<Rightarrow> real \<Rightarrow> f32 data_array \<Rightarrow> f32 data_array" where
  "clip lo hi a = a\<lparr>vals := map (f32_clip lo hi) (vals a)\<rparr>"

text \<open>
  \<open>labels.astype("int64")\<close>: the elements are integers; one outside the range of a
  signed 64-bit integer wraps around.
\<close>

definition wrap_int64 :: "int \<Rightarrow> int" where
  "wrap_int64 v = (v + 2 ^ 63) mod 2 ^ 64 - 2 ^ 63"

definition astype_int64 :: "int data_array \<Rightarrow> int data_array" where
  "astype_int64 a = a\<lparr>dtype := Int64, vals := map wrap_int64 (vals a)\<rparr>"

text \<open>
  \<^verbatim>\<open>
  def get_item(label_item, sentinel_items, assets):
      assets = list(assets)
      labels = rioxarray.open_rasterio(
          label_item.assets["labels"].href,
      ).squeeze()

      sentinel_item = find_match(label_item, sentinel_items)
      bounds = tuple(round(x, 0) for x in labels.rio.bounds())

      data = (
          stackstac.stack(
              planetary_computer.sign(sentinel_item).to_dict(),
              assets=assets,
              dtype="float32",
              resolution=10,
              bounds=bounds,
              epsg=labels.rio.crs.to_epsg(),
          )
          .squeeze()
          .compute(scheduler="single-threaded")
      )

      assert data.shape[1:] == labels.shape
      data = data.assign_coords(x=labels.x.data, y=labels.y.data)
      data /= 4000
      data = np.clip(data, 0, 1)
      return data, labels.astype("int64")
  \<close>
  \<open>data.shape[1:]\<close> is the shape without its first entry (empty for an empty shape),
  which is \<^const>\<open>tl\<close>.
\<close>

definition get_item ::
  "'g world \<Rightarrow> 'g shapely \<Rightarrow> 'g stac_item \<Rightarrow> 'g stac_item list \<Rightarrow> string list
   \<Rightarrow> error + (f32 data_array \<times> int data_array)" where
  "get_item w sh label_item sentinel_items assets_arg =
     (case map_of (assets label_item) ''labels'' of
        None \<Rightarrow> Inl (KeyError ''labels'')
      | Some href \<Rightarrow>
     (case open_rasterio w href of
        Inl msg \<Rightarrow> Inl (LibraryError msg)
      | Inr opened \<Rightarrow>
     (let labels = squeeze opened in
      case find_match sh label_item sentinel_items of
        Inl e \<Rightarrow> Inl e
      | Inr sentinel_item \<Rightarrow>
     (let bounds = round_bounds (rio_bounds labels) in
      case sign w sentinel_item of
        Inl msg \<Rightarrow> Inl (LibraryError msg)
      | Inr signed_item \<Rightarrow>
     (case stack w signed_item assets_arg bounds (rio_epsg labels) of
        Inl msg \<Rightarrow> Inl (LibraryError msg)
      | Inr stacked \<Rightarrow>
     (let data = squeeze stacked in
      if tl (shape data) \<noteq> shape labels then Inl AssertionError
      else
        Inr (clip 0 1 (divide_by 4000 (assign_coords (x_coord labels) (y_coord labels) data)),
             astype_int64 labels)))))))"

text \<open>
  An element lies in the closed interval \<open>[0, 1]\<close> when it is a finite number
  between the two bounds.
\<close>

fun in_unit_interval :: "f32 \<Rightarrow> bool" where
  "in_unit_interval (Fin r) = (0 \<le> r \<and> r \<le> 1)"
| "in_unit_interval PInf = False"
| "in_unit_interval NInf = False"
| "in_unit_interval NaN = False"

subsection \<open>A world with one chip and one scene\<close>

text \<open>
  The label raster of \<open>chip_label\<close> is a 2 by 2 chip in one band; the stack of a
  signed scene over the three assets is one time step of three bands of 2 by 2
  pixels, with reflectances between 0 and 8000 and two pixels without data. A second
  world serves the same label raster and a stack of 4 by 1 pixels.
\<close>

definition chip_raster :: "int data_array" where
  "chip_raster =
     \<lparr>shape = [1, 2, 2], dtype = UInt8, vals = [0, 3, 3, 7],
      x_coord = [5, 15], y_coord = [15, 5], rio_bounds = (0, 0, 20, 20), rio_epsg = 32734\<rparr>"

definition scene_stack :: "f32 data_array" where
  "scene_stack =
     \<lparr>shape = [1, 3, 2, 2], dtype = Float32,
      vals = [Fin 0, Fin 2000, Fin 4000, Fin 8000,
              NaN, Fin 1000, Fin 3000, Fin 5000,
              Fin 400, NaN, Fin 4400, PInf],
      x_coord = [0, 10], y_coord = [20, 10], rio_bounds = (0, 0, 20, 20), rio_epsg = 32734\<rparr>"

definition chip_world :: "box world" where
  "chip_world =
     \<lparr>open_rasterio = (\<lambda>href. if href = ''train/chip/labels.tif'' then Inr chip_raster
                               else Inl ''no such file''),
      sign = (\<lambda>item. Inr (item\<lparr>assets := [(''B03'', ''signed'')]\<rparr>)),
      stack = (\<lambda>item assets_arg bounds epsg. Inr scene_stack)\<rparr>"

definition wide_world :: "box world" where
  "wide_world = chip_world\<lparr>stack := (\<lambda>item assets_arg bounds epsg.
                                Inr (scene_stack\<lparr>shape := [1, 3, 4, 1]\<rparr>))\<rparr>"

section \<open>Dependence on the data services\<close>



section \<open>deploy/Makefile\<close>

text \<open>
  A rule of the Makefile: its target, its prerequisites and the lines of its recipe.
  A recipe line continued with a backslash is one line here, the continuation joined
  with one space. Variable references such as \<^verbatim>\<open>$(GROUP)\<close> are kept as written.
\<close>

record make_rule =
  target :: string
  prerequisites :: "string list"
  recipe :: "string list"

definition makefile_variables :: "(string \<times> string) list" where
  \<open>makefile_variables =
     [(''LOCATION'', ''westeurope''),
      (''GROUP'', ''esip2021''),
      (''CLUSTER'', ''pangeoCluster''),
      (''STORAGE_ACCOUNT'', ''$(GROUP)''),
      (''STORAGE_CONTAINER'', ''$(GROUP)''),
      (''MAX_USER_NODE_COUNT'', ''60''),
      (''MAX_WORKER_NODE_COUNT'', ''100''),
      (''NODE_COUNT'', ''0''),
      (''SUBSCRIPTION'', ''"Planetary Computer"'')]\<close>

definition deploy_makefile :: "make_rule list" where
  \<open>deploy_makefile =
     [\<lparr>target = ''.PHONY'',
       prerequisites = [''group'', ''cluster'', ''hub'', ''clean'', ''storage''],
       recipe = []\<rparr>,
      \<lparr>target = ''group'', prerequisites = [],
       recipe = [''az group create --name $(GROUP) --location $(LOCATION)'']\<rparr>,
      \<lparr>target = ''cluster'', prerequisites = [],
       recipe =
         [''az aks create --resource-group $(GROUP) --name $(CLUSTER) --generate-ssh-keys --node-count=1 --nodepool-name core --nodepool-labels hub.jupyter.org/node-purpose=core'',
          ''az aks get-credentials --name $(CLUSTER) --resource-group $(GROUP)'']\<rparr>,
      \<lparr>target = ''userpools'', prerequisites = [],
       recipe =
         [''# NC4as_T4_v3'',
          ''az aks nodepool add --name gpumanual --cluster-name $(CLUSTER) --resource-group $(GROUP) --node-vm-size Standard_NC4as_T4_v3 --node-count 0 --aks-custom-headers UseGPUDedicatedVHD=true --labels hub.jupyter.org/node-purpose=user hub.jupyter.org/pool-name=user-alpha-pool computetype=gpu --node-taints "hub.jupyter.org_dedicated=user:NoSchedule"'']\<rparr>,
      \<lparr>target = ''storage'', prerequisites = [],
       recipe =
         [''az storage account create --name=$(STORAGE_ACCOUNT) --resource-group=$(GROUP) --location=$(LOCATION)'',
          ''az storage container create --name=esip2021 --account-name=$(STORAGE_CONTAINER) --public-access blob'']\<rparr>,
      \<lparr>target = ''hub'', prerequisites = [],
       recipe =
         [''helm upgrade --wait --install --create-namespace dask dask/daskhub --version=2021.7.0 --namespace=dhub --values=config.yaml --values=secrets.yaml'']\<rparr>,
      \<lparr>target = ''scale'', prerequisites = [],
       recipe =
         [''az aks nodepool scale --name=gpumanual --cluster-name=$(CLUSTER) --resource-group=$(GROUP) --node-count=NODE_COUNT'']\<rparr>,
      \<lparr>target = ''clean'', prerequisites = [],
       recipe = [''az group delete -n $(GROUP)'']\<rparr>]\<close>

text \<open>
  A target whose name starts with a period (\<open>.PHONY\<close>) is one of make's special
  targets: it configures make and cannot be asked for as a goal. The other targets
  are the ones the Makefile exposes.
\<close>

definition special_target :: "string \<Rightarrow> bool" where
  "special_target name = (case name of [] \<Rightarrow> False | c # _ \<Rightarrow> c = CHR ''.'')"

definition exposed_targets :: "make_rule list \<Rightarrow> string list" where
  "exposed_targets rules = filter (\<lambda>name. \<not> special_target name) (map target rules)"

text \<open>
  Make hands every recipe line to the shell. A line whose first character that is
  not a blank is \<open>#\<close> is a comment to the shell and runs nothing; every other line
  is a command, and the program it invokes is its first word.
\<close>

definition shell_comment :: "string \<Rightarrow> bool" where
  "shell_comment line =
     (case dropWhile (\<lambda>c. c = CHR '' '') line of [] \<Rightarrow> True | c # _ \<Rightarrow> c = CHR ''#'')"

definition commands :: "make_rule \<Rightarrow> string list" where
  "commands r = filter (\<lambda>line. \<not> shell_comment line) (recipe r)"

definition program :: "string \<Rightarrow> string" where
  "program line = takeWhile (\<lambda>c. c \<noteq> CHR '' '') (dropWhile (\<lambda>c. c = CHR '' '') line)"

definition invokes_az_or_helm :: "string \<Rightarrow> bool" where
  "invokes_az_or_helm line = (program line = ''az'' \<or> program line = ''helm'')"

section \<open>deploy/config.yaml: the values of the Helm chart\<close>

text \<open>
  A YAML document: strings, integers, booleans, sequences and mappings in the order
  of the file. \<open>YPython\<close> is the block scalar under \<open>01-optionHandler\<close>, whose
  Python source is the option handler above.
\<close>

datatype yaml =
    YStr string
  | YInt int
  | YBool bool
  | YSeq "yaml list"
  | YMap "(string \<times> yaml) list"
  | YPython

fun yaml_get :: "yaml \<Rightarrow> string \<Rightarrow> yaml option" where
  "yaml_get (YMap kvs) k = map_of kvs k"
| "yaml_get _ k = None"

fun yaml_path :: "yaml \<Rightarrow> string list \<Rightarrow> yaml option" where
  "yaml_path v [] = Some v"
| "yaml_path v (k # ks) =
     (case yaml_get v k of None \<Rightarrow> None | Some v' \<Rightarrow> yaml_path v' ks)"

fun yaml_keys :: "yaml option \<Rightarrow> string list" where
  "yaml_keys (Some (YMap kvs)) = map fst kvs"
| "yaml_keys _ = []"

definition singleuser_yaml :: yaml where
  "singleuser_yaml = YMap
     [(''image'', YMap
         [(''name'', YStr ''mcr.microsoft.com/planetary-computer/gpu-pytorch''),
          (''tag'', YStr ''2021.07.13.0'')]),
      (''startTimeout'', YInt 1200),
      (''cpu'', YMap [(''guarantee'', YInt 3), (''limit'', YInt 4)]),
      (''memory'', YMap [(''guarantee'', YStr ''12G''), (''limit'', YStr ''24G'')]),
      (''extraResource'', YMap [(''limits'', YMap [(''nvidia.com/gpu'', YInt 1)])]),
      (''defaultUrl'', YStr ''/lab/tree/workshop/index.ipynb''),
      (''lifecycleHooks'', YMap
         [(''postStart'', YMap
            [(''exec'', YMap
               [(''command'', YSeq
                  [YStr ''/srv/conda/envs/notebook/bin/gitpuller'',
                   YStr ''https://github.com/TomAugspurger/esip-summer-2021-geospatial-ml'',
                   YStr ''main'',
                   YStr ''workshop''])])])]),
      (''extraEnv'', YMap
         [(''DASK_GATEWAY__CLUSTER__OPTIONS__IMAGE'', YStr ''{JUPYTER_IMAGE_SPEC}''),
          (''DASK_DISTRIBUTED__DASHBOARD__LINK'',
             YStr ''/user/{JUPYTERHUB_USER}/proxy/{port}/status''),
          (''DASK_LABEXTENSION__FACTORY__MODULE'', YStr ''dask_gateway''),
          (''DASK_LABEXTENSION__FACTORY__CLASS'', YStr ''GatewayCluster''),
          (''NVIDIA_DRIVER_CAPABILITIES'', YStr ''compute,utility''),
          (''GDAL_DISABLE_READDIR_ON_OPEN'', YStr ''EMPTY_DIR''),
          (''GDAL_HTTP_MERGE_CONSECUTIVE_RANGES'', YStr ''YES''),
          (''GDAL_HTTP_MAX_RETRY'', YStr ''5'')])]"

definition jupyterhub_yaml :: yaml where
  "jupyterhub_yaml = YMap
     [(''proxy'', YMap
         [(''https'', YMap
             [(''enabled'', YBool True),
              (''hosts'', YSeq [YStr ''esip2021.westeurope.cloudapp.azure.com'']),
              (''letsencrypt'', YMap [(''contactEmail'', YStr ''taugspurger@microsoft.com'')])]),
          (''service'', YMap
             [(''annotations'', YMap
                 [(''service.beta.kubernetes.io/azure-dns-label-name'', YStr ''esip2021'')])])]),
      (''hub'', YMap
         [(''networkPolicy'', YMap [(''enabled'', YBool False)]),
          (''config'', YMap
             [(''JupyterHub'', YMap [(''authenticator_class'', YStr ''dummy'')])])]),
      (''singleuser'', singleuser_yaml)]"

definition worker_yaml :: yaml where
  "worker_yaml = YMap
     [(''extraPodConfig'', YMap
         [(''affinity'', YMap
             [(''nodeAffinity'', YMap
                 [(''requiredDuringSchedulingIgnoredDuringExecution'', YMap
                     [(''nodeSelectorTerms'', YSeq
                         [YMap
                            [(''matchExpressions'', YSeq
                                [YMap
                                   [(''key'', YStr ''k8s.dask.org/dedicated''),
                                    (''operator'', YStr ''In''),
                                    (''values'', YSeq [YStr ''worker''])]])]])])])]),
          (''tolerations'', YSeq
             [YMap
                [(''key'', YStr ''k8s.dask.org/dedicated''),
                 (''operator'', YStr ''Equal''),
                 (''value'', YStr ''worker''),
                 (''effect'', YStr ''NoSchedule'')],
              YMap
                [(''key'', YStr ''k8s.dask.org_dedicated''),
                 (''operator'', YStr ''Equal''),
                 (''value'', YStr ''worker''),
                 (''effect'', YStr ''NoSchedule'')],
              YMap
                [(''key'', YStr ''kubernetes.azure.com/scalesetpriority''),
                 (''operator'', YStr ''Equal''),
                 (''value'', YStr ''spot''),
                 (''effect'', YStr ''NoSchedule'')]])])]"

definition config_yaml :: yaml where
  "config_yaml = YMap
     [(''jupyterhub'', jupyterhub_yaml),
      (''dask-gateway'', YMap
         [(''gateway'', YMap
             [(''backend'', YMap [(''worker'', worker_yaml)]),
              (''extraConfig'', YMap [(''01-optionHandler'', YPython)])])])]"

section \<open>The statements of the two notebooks\<close>












section \<open>Properties of the option handler\<close>

lemma option_handler_tagged:
  "CHR '':'' \<in> set (image opts) \<Longrightarrow>
   option_handler opts = Inr
     [(''worker_cores'', PyFloat (0.88 * min (worker_cores opts / 2) 1)),
      (''worker_cores_limit'', PyFloat (worker_cores opts)),
      (''worker_memory'', PyStr_fG (0.95 * worker_memory opts)),
      (''worker_memory_limit'', PyStr_fG (worker_memory opts)),
      (''image'', PyStr (image opts)),
      (''environment'', PyDict (environment opts))]"
  by (simp add: option_handler_def)

lemma cores_request_le_limit:
  fixes c :: real
  assumes "1 \<le> c"
  shows "0.88 * min (c / 2) 1 \<le> c"
proof -
  have "min (c / 2) 1 \<le> 1" by simp
  then have "0.88 * min (c / 2) 1 \<le> 0.88 * 1"
    by (intro mult_left_mono) simp_all
  also have "\<dots> \<le> 1" by simp
  finally show ?thesis using assms by linarith
qed

text \<open>
  C5. For options with \<open>worker_cores\<close> in \<open>[1, 16]\<close>, \<open>worker_memory\<close> in
  \<open>[1, 32]\<close> and an image containing \<open>:\<close>, the handler returns a mapping whose
  \<open>worker_cores\<close> entry, \<open>0.88 * min (worker_cores / 2) 1\<close>, is at most its
  \<open>worker_cores_limit\<close> entry, the requested cores, and whose \<open>worker_memory\<close>
  entry, 0.95 times the requested memory, is at most its \<open>worker_memory_limit\<close>
  entry, the requested memory.
\<close>

theorem option_handler_requests_within_limits:
  assumes "1 \<le> worker_cores opts" and "worker_cores opts \<le> 16"
    and "1 \<le> worker_memory opts" and "worker_memory opts \<le> 32"
    and "CHR '':'' \<in> set (image opts)"
  shows "\<exists>d. option_handler opts = Inr d
         \<and> map_of d ''worker_cores'' = Some (PyFloat (0.88 * min (worker_cores opts / 2) 1))
         \<and> map_of d ''worker_cores_limit'' = Some (PyFloat (worker_cores opts))
         \<and> map_of d ''worker_memory'' = Some (PyStr_fG (0.95 * worker_memory opts))
         \<and> map_of d ''worker_memory_limit'' = Some (PyStr_fG (worker_memory opts))
         \<and> 0.88 * min (worker_cores opts / 2) 1 \<le> worker_cores opts
         \<and> 0.95 * worker_memory opts \<le> worker_memory opts"
proof -
  have c: "0.88 * min (worker_cores opts / 2) 1 \<le> worker_cores opts"
    using assms(1) by (rule cores_request_le_limit)
  have m: "0.95 * worker_memory opts \<le> worker_memory opts"
    using assms(3) by simp
  show ?thesis
    unfolding option_handler_tagged [OF assms(5)] using c m by simp
qed

theorem option_handler_requests_within_limits_witness:
  "\<exists>d. option_handler default_options = Inr d
     \<and> map_of d ''worker_cores'' = Some (PyFloat 0.44)
     \<and> map_of d ''worker_cores_limit'' = Some (PyFloat 1)
     \<and> map_of d ''worker_memory'' = Some (PyStr_fG 1.9)
     \<and> map_of d ''worker_memory_limit'' = Some (PyStr_fG 2)"
  using option_handler_requests_within_limits [of default_options]
  by (simp add: default_options_def)


section \<open>Properties of the scene selection\<close>





lemmas scene_defs =
  chip_label_def point_label_def scene_a_def scene_b_def scene_c_def
  box_shapely_def box_area_def box_intersection_def




section \<open>Properties of the loaded pair\<close>

lemma get_item_InrE:
  assumes "get_item w sh label_item sentinel_items assets_arg = Inr (data, labels)"
  obtains href opened sentinel_item signed_item stacked where
    "map_of (assets label_item) ''labels'' = Some href"
    "open_rasterio w href = Inr opened"
    "find_match sh label_item sentinel_items = Inr sentinel_item"
    "sign w sentinel_item = Inr signed_item"
    "stack w signed_item assets_arg (round_bounds (rio_bounds (squeeze opened)))
       (rio_epsg (squeeze opened)) = Inr stacked"
    "tl (shape (squeeze stacked)) = shape (squeeze opened)"
    "data = clip 0 1 (divide_by 4000
              (assign_coords (x_coord (squeeze opened)) (y_coord (squeeze opened))
                 (squeeze stacked)))"
    "labels = astype_int64 (squeeze opened)"
  using assms unfolding get_item_def Let_def
  by (auto split: option.splits sum.splits if_splits)

lemma f32_clip_range:
  assumes "lo \<le> hi"
  shows "f32_clip lo hi v = NaN \<or> (\<exists>r. f32_clip lo hi v = Fin r \<and> lo \<le> r \<and> r \<le> hi)"
  using assms by (cases v) auto

lemma clip_unit_elements:
  assumes "v \<in> set (vals (clip 0 1 a))"
  shows "v = NaN \<or> in_unit_interval v"
proof -
  from assms obtain u where "v = f32_clip 0 1 u"
    by (auto simp: clip_def)
  then show ?thesis
    using f32_clip_range [of 0 1 u] by auto
qed

lemma shape_clip_divide_assign:
  "shape (clip lo hi (divide_by k (assign_coords xs ys a))) = shape a"
  by (simp add: clip_def divide_by_def assign_coords_def)

lemmas world_defs =
  chip_world_def wide_world_def chip_raster_def scene_stack_def
  squeeze_def round_bounds_def py_round0_def assign_coords_def divide_by_def clip_def
  astype_int64_def wrap_int64_def

lemma find_match_chip:
  "find_match box_shapely chip_label [scene_a, scene_b, scene_c] = Inr scene_b"
  by (simp add: find_match_def overlap_ratio_def scene_defs)

lemma get_item_chip_world:
  "get_item chip_world box_shapely chip_label [scene_a, scene_b, scene_c]
     [''B03'', ''B04'', ''B05'']
   = Inr (\<lparr>shape = [3, 2, 2], dtype = Float32,
           vals = [Fin 0, Fin (1 / 2), Fin 1, Fin 1,
                   NaN, Fin (1 / 4), Fin (3 / 4), Fin 1,
                   Fin (1 / 10), NaN, Fin 1, Fin 1],
           x_coord = [5, 15], y_coord = [15, 5],
           rio_bounds = (0, 0, 20, 20), rio_epsg = 32734\<rparr>,
          \<lparr>shape = [2, 2], dtype = Int64, vals = [0, 3, 3, 7],
           x_coord = [5, 15], y_coord = [15, 5],
           rio_bounds = (0, 0, 20, 20), rio_epsg = 32734\<rparr>)"
  unfolding get_item_def find_match_chip
  by (simp add: world_defs chip_label_def)

text \<open>
  C6, as the claim states it, fails where the stack holds a pixel without data:
  \<open>get_item\<close> returns, and the imagery it returns has NaN elements, which are not
  within \<open>[0, 1]\<close>.
\<close>

theorem get_item_nan_counterexample:
  "(case get_item chip_world box_shapely chip_label [scene_a, scene_b, scene_c]
           [''B03'', ''B04'', ''B05''] of
      Inl e \<Rightarrow> False
    | Inr (data, labels) \<Rightarrow> \<not> list_all in_unit_interval (vals data) \<and> vals data ! 4 = NaN)"
  unfolding get_item_chip_world by simp

text \<open>
  C6, amended. Whenever \<open>get_item\<close> returns a pair, every element of the returned
  imagery is either NaN or within the closed interval \<open>[0, 1]\<close>, the imagery's shape
  after its first (band) dimension equals the shape of the returned labels, which is
  the shape of the squeezed label chip, and the labels have dtype \<open>int64\<close>.
\<close>

theorem get_item_unit_range_shape_dtype:
  assumes "get_item w sh label_item sentinel_items assets_arg = Inr (data, labels)"
  shows "(\<forall>v\<in>set (vals data). v = NaN \<or> in_unit_interval v)
       \<and> tl (shape data) = shape labels
       \<and> dtype labels = Int64
       \<and> (\<exists>href opened. map_of (assets label_item) ''labels'' = Some href
             \<and> open_rasterio w href = Inr opened
             \<and> shape labels = shape (squeeze opened))"
proof -
  from assms obtain href opened stacked where
    href: "map_of (assets label_item) ''labels'' = Some href"
    and opened: "open_rasterio w href = Inr opened"
    and same: "tl (shape (squeeze stacked)) = shape (squeeze opened)"
    and data: "data = clip 0 1 (divide_by 4000
              (assign_coords (x_coord (squeeze opened)) (y_coord (squeeze opened))
                 (squeeze stacked)))"
    and labels: "labels = astype_int64 (squeeze opened)"
    by (rule get_item_InrE)
  have "\<forall>v\<in>set (vals data). v = NaN \<or> in_unit_interval v"
    unfolding data using clip_unit_elements by blast
  moreover have "shape labels = shape (squeeze opened)" and "dtype labels = Int64"
    by (simp_all add: labels astype_int64_def)
  moreover have "tl (shape data) = shape labels"
    unfolding data shape_clip_divide_assign using same \<open>shape labels = _\<close> by simp
  ultimately show ?thesis using href opened by blast
qed

theorem get_item_unit_range_shape_dtype_witness:
  "(case get_item chip_world box_shapely chip_label [scene_a, scene_b, scene_c]
           [''B03'', ''B04'', ''B05''] of
      Inl e \<Rightarrow> False
    | Inr (data, labels) \<Rightarrow>
        list_all (\<lambda>v. v = NaN \<or> in_unit_interval v) (vals data)
      \<and> tl (shape data) = [2, 2] \<and> shape labels = [2, 2] \<and> dtype labels = Int64)"
  using get_item_unit_range_shape_dtype [OF get_item_chip_world]
  unfolding get_item_chip_world by simp

section \<open>Errors raised by the repository's own code\<close>






section \<open>Which outputs depend on the data services\<close>





section \<open>The targets of the Makefile\<close>

lemma commands_deploy_makefile:
  "map (\<lambda>r. (target r, map program (commands r))) deploy_makefile =
     [(''.PHONY'', []),
      (''group'', [''az'']),
      (''cluster'', [''az'', ''az'']),
      (''userpools'', [''az'']),
      (''storage'', [''az'', ''az'']),
      (''hub'', [''helm'']),
      (''scale'', [''az'']),
      (''clean'', [''az''])]"
  by (simp add: deploy_makefile_def commands_def shell_comment_def program_def)

text \<open>
  C7. The targets the Makefile exposes are exactly the seven targets \<open>group\<close>,
  \<open>cluster\<close>, \<open>userpools\<close>, \<open>storage\<close>, \<open>hub\<close>, \<open>scale\<close> and \<open>clean\<close>, and
  every command in the recipe of every rule invokes \<open>az\<close> or \<open>helm\<close>; every exposed
  target has at least one command.
\<close>

theorem makefile_targets_invoke_az_or_helm:
  "exposed_targets deploy_makefile
     = [''group'', ''cluster'', ''userpools'', ''storage'', ''hub'', ''scale'', ''clean'']
   \<and> list_all (\<lambda>r. list_all invokes_az_or_helm (commands r)) deploy_makefile
   \<and> list_all (\<lambda>r. special_target (target r) \<or> commands r \<noteq> []) deploy_makefile"
proof (intro conjI)
  show "exposed_targets deploy_makefile
     = [''group'', ''cluster'', ''userpools'', ''storage'', ''hub'', ''scale'', ''clean'']"
    by (simp add: exposed_targets_def special_target_def deploy_makefile_def)
  show "list_all (\<lambda>r. list_all invokes_az_or_helm (commands r)) deploy_makefile"
    by (simp add: deploy_makefile_def commands_def shell_comment_def program_def
        invokes_az_or_helm_def)
  show "list_all (\<lambda>r. special_target (target r) \<or> commands r \<noteq> []) deploy_makefile"
    by (simp add: deploy_makefile_def commands_def shell_comment_def special_target_def)
qed

section \<open>The values of the notebook server chart\<close>

lemmas yaml_defs = config_yaml_def jupyterhub_yaml_def singleuser_yaml_def worker_yaml_def

text \<open>
  C8. Under the \<open>jupyterhub\<close> key, the values of the notebook server chart, the file
  sets the authenticator class to \<open>dummy\<close>; for each user's server a CPU guarantee
  of 3 and limit of 4, a memory guarantee of \<open>12G\<close> and limit of \<open>24G\<close>, and a
  limit of one \<open>nvidia.com/gpu\<close>; and eight environment variables. For the Dask
  workers it sets a required node affinity to nodes whose
  \<open>k8s.dask.org/dedicated\<close> label is \<open>worker\<close> and three \<open>NoSchedule\<close>
  tolerations.
\<close>

theorem config_yaml_values:
  "yaml_path config_yaml
      [''jupyterhub'', ''hub'', ''config'', ''JupyterHub'', ''authenticator_class'']
     = Some (YStr ''dummy'')
   \<and> yaml_path config_yaml [''jupyterhub'', ''singleuser'', ''cpu'', ''guarantee''] = Some (YInt 3)
   \<and> yaml_path config_yaml [''jupyterhub'', ''singleuser'', ''cpu'', ''limit''] = Some (YInt 4)
   \<and> yaml_path config_yaml [''jupyterhub'', ''singleuser'', ''memory'', ''guarantee'']
     = Some (YStr ''12G'')
   \<and> yaml_path config_yaml [''jupyterhub'', ''singleuser'', ''memory'', ''limit'']
     = Some (YStr ''24G'')
   \<and> yaml_path config_yaml
      [''jupyterhub'', ''singleuser'', ''extraResource'', ''limits'', ''nvidia.com/gpu'']
     = Some (YInt 1)
   \<and> yaml_keys (yaml_path config_yaml [''jupyterhub'', ''singleuser'', ''extraEnv''])
     = [''DASK_GATEWAY__CLUSTER__OPTIONS__IMAGE'', ''DASK_DISTRIBUTED__DASHBOARD__LINK'',
        ''DASK_LABEXTENSION__FACTORY__MODULE'', ''DASK_LABEXTENSION__FACTORY__CLASS'',
        ''NVIDIA_DRIVER_CAPABILITIES'', ''GDAL_DISABLE_READDIR_ON_OPEN'',
        ''GDAL_HTTP_MERGE_CONSECUTIVE_RANGES'', ''GDAL_HTTP_MAX_RETRY'']
   \<and> yaml_path config_yaml
      [''jupyterhub'', ''singleuser'', ''extraEnv'', ''NVIDIA_DRIVER_CAPABILITIES'']
     = Some (YStr ''compute,utility'')
   \<and> yaml_path config_yaml
      [''dask-gateway'', ''gateway'', ''backend'', ''worker'', ''extraPodConfig'', ''affinity'',
       ''nodeAffinity'', ''requiredDuringSchedulingIgnoredDuringExecution'',
       ''nodeSelectorTerms'']
     = Some (YSeq [YMap [(''matchExpressions'', YSeq
                 [YMap [(''key'', YStr ''k8s.dask.org/dedicated''),
                        (''operator'', YStr ''In''),
                        (''values'', YSeq [YStr ''worker''])]])]])
   \<and> yaml_path config_yaml
      [''dask-gateway'', ''gateway'', ''backend'', ''worker'', ''extraPodConfig'', ''tolerations'']
     = Some (YSeq
         [YMap [(''key'', YStr ''k8s.dask.org/dedicated''), (''operator'', YStr ''Equal''),
                (''value'', YStr ''worker''), (''effect'', YStr ''NoSchedule'')],
          YMap [(''key'', YStr ''k8s.dask.org_dedicated''), (''operator'', YStr ''Equal''),
                (''value'', YStr ''worker''), (''effect'', YStr ''NoSchedule'')],
          YMap [(''key'', YStr ''kubernetes.azure.com/scalesetpriority''),
                (''operator'', YStr ''Equal''),
                (''value'', YStr ''spot''), (''effect'', YStr ''NoSchedule'')]])"
  by (simp add: yaml_defs)

section \<open>The order of the exploratory notebook\<close>


section \<open>Where the notebooks run their own functions\<close>







end
